theory Spec2Isabelle
  imports Main
begin

section \<open>Data model\<close>

text \<open>
  The validator of \<^verbatim>\<open>pkg/controller/deployment/rbac_validator.go\<close> compares Kubernetes
  policy rules. A Go \<^verbatim>\<open>string\<close> is a sequence of bytes and is modelled as a \<^typ>\<open>string\<close>
  (a list of 8-bit characters); a Go slice is a list, the nil slice and the empty slice
  both being \<^term>\<open>[]\<close> (the source only ranges over slices, takes \<^verbatim>\<open>len\<close> and appends,
  which do not tell them apart).
\<close>

text \<open>
  Modelled from the spec: the type \<^verbatim>\<open>rbacv1.PolicyRule\<close> is declared in the Kubernetes API
  package, outside this repository. The record has the four attributes of an authorization
  rule that the data model names and the validator reads.
\<close>

record PolicyRule =
  APIGroups :: "string list"
  Resources :: "string list"
  Verbs :: "string list"
  ResourceNames :: "string list"

text \<open>
  Modelled from the spec: the type \<^verbatim>\<open>rbacv1.Role\<close> is declared in the Kubernetes API package
  as well. Of a grant request only the identifying name and the rules matter.
\<close>

record Role =
  Name :: string
  Rules :: "PolicyRule list"

record RBACValidator =
  operatorRules :: "PolicyRule list"
  createdRoles :: "Role list"

text \<open>A Go \<^verbatim>\<open>error\<close> built by \<^verbatim>\<open>fmt.Errorf\<close> is its message; the nil error is \<^term>\<open>None\<close>.\<close>

datatype error = Errorf string

section \<open>Library functions of Go used by the validator\<close>

text \<open>\<^verbatim>\<open>strings.Join(elems, sep)\<close>: the elements in order, \<^verbatim>\<open>sep\<close> between neighbours.\<close>

fun Join :: "string list \<Rightarrow> string \<Rightarrow> string" where
  "Join [] sep = []"
| "Join [x] sep = x"
| "Join (x # y # ys) sep = x @ sep @ Join (y # ys) sep"

text \<open>The verb \<^verbatim>\<open>%v\<close> of package \<^verbatim>\<open>fmt\<close> on a slice of strings: \<^verbatim>\<open>[a b c]\<close>.\<close>

definition fmt_v :: "string list \<Rightarrow> string" where
  "fmt_v xs = ''['' @ Join xs '' '' @ '']''"

section \<open>The validator\<close>

definition NewRBACValidator :: "PolicyRule list \<Rightarrow> RBACValidator" where
  "NewRBACValidator rules = \<lparr>operatorRules = rules, createdRoles = []\<rparr>"

text \<open>
  The inner loop of \<^verbatim>\<open>sliceContains\<close>: scan \<^verbatim>\<open>available\<close> until an entry is the wildcard
  or the required item; the result is the flag \<^verbatim>\<open>found\<close>.
\<close>

fun found :: "string list \<Rightarrow> string \<Rightarrow> bool" where
  "found [] req = False"
| "found (avail # available) req =
     (if avail = ''*'' \<or> avail = req then True else found available req)"

text \<open>The receiver of \<^verbatim>\<open>sliceContains\<close> and \<^verbatim>\<open>ruleCovers\<close> is not read by them and is left out.\<close>

fun sliceContains :: "string list \<Rightarrow> string list \<Rightarrow> bool" where
  "sliceContains available [] = True"
| "sliceContains available (req # required) =
     (if \<not> found available req then False else sliceContains available required)"

definition ruleCovers :: "PolicyRule \<Rightarrow> PolicyRule \<Rightarrow> bool" where
  "ruleCovers opRule reqRule =
     (if \<not> sliceContains (APIGroups opRule) (APIGroups reqRule) then False
      else if \<not> sliceContains (Resources opRule) (Resources reqRule) then False
      else if \<not> sliceContains (Verbs opRule) (Verbs reqRule) then False
      else if length (ResourceNames reqRule) > 0 \<and> length (ResourceNames opRule) > 0
              \<and> \<not> sliceContains (ResourceNames opRule) (ResourceNames reqRule) then False
      else True)"

fun operatorCanGrant_loop :: "PolicyRule list \<Rightarrow> PolicyRule \<Rightarrow> bool" where
  "operatorCanGrant_loop [] rule = False"
| "operatorCanGrant_loop (opRule # rest) rule =
     (if ruleCovers opRule rule then True else operatorCanGrant_loop rest rule)"

definition operatorCanGrant :: "RBACValidator \<Rightarrow> PolicyRule \<Rightarrow> bool" where
  "operatorCanGrant v rule = operatorCanGrant_loop (operatorRules v) rule"

definition formatPolicyRule :: "PolicyRule \<Rightarrow> string" where
  "formatPolicyRule rule =
     ''APIGroups:'' @ fmt_v (APIGroups rule) @ '' Resources:'' @ fmt_v (Resources rule)
       @ '' Verbs:'' @ fmt_v (Verbs rule)"

fun ValidateRoleCreation_loop :: "RBACValidator \<Rightarrow> string \<Rightarrow> PolicyRule list \<Rightarrow> error option" where
  "ValidateRoleCreation_loop v name [] = None"
| "ValidateRoleCreation_loop v name (rule # rest) =
     (if \<not> operatorCanGrant v rule
      then Some (Errorf (''operator cannot create role '' @ name
                           @ '': missing permissions for '' @ formatPolicyRule rule))
      else ValidateRoleCreation_loop v name rest)"

definition ValidateRoleCreation :: "RBACValidator \<Rightarrow> Role \<Rightarrow> error option" where
  "ValidateRoleCreation v role = ValidateRoleCreation_loop v (Name role) (Rules role)"

text \<open>The loops that collect results carry the slice built so far; \<^verbatim>\<open>append\<close> adds at the end.\<close>

fun ValidateAllRoles_loop :: "RBACValidator \<Rightarrow> Role list \<Rightarrow> error list \<Rightarrow> error list" where
  "ValidateAllRoles_loop v [] errors = errors"
| "ValidateAllRoles_loop v (role # roles) errors =
     (case ValidateRoleCreation v role of
        Some err \<Rightarrow> ValidateAllRoles_loop v roles (errors @ [err])
      | None \<Rightarrow> ValidateAllRoles_loop v roles errors)"

definition ValidateAllRoles :: "RBACValidator \<Rightarrow> Role list \<Rightarrow> error list" where
  "ValidateAllRoles v roles = ValidateAllRoles_loop v roles []"

fun GetMissingPermissions_loop ::
  "RBACValidator \<Rightarrow> PolicyRule list \<Rightarrow> PolicyRule list \<Rightarrow> PolicyRule list" where
  "GetMissingPermissions_loop v [] missing = missing"
| "GetMissingPermissions_loop v (rule # rules) missing =
     (if \<not> operatorCanGrant v rule
      then GetMissingPermissions_loop v rules (missing @ [rule])
      else GetMissingPermissions_loop v rules missing)"

definition GetMissingPermissions :: "RBACValidator \<Rightarrow> Role \<Rightarrow> PolicyRule list" where
  "GetMissingPermissions v role = GetMissingPermissions_loop v (Rules role) []"

text \<open>The raw string literal of two double quotes that stands for the core API group.\<close>

definition quoted_empty :: string where
  "quoted_empty = [CHR 0x22, CHR 0x22]"

text \<open>The body of the loop of \<^verbatim>\<open>SuggestKubebuilderAnnotation\<close>: the suggestion for one rule.\<close>

definition suggestion :: "PolicyRule \<Rightarrow> string" where
  "suggestion rule =
     (let apiGroups = Join (APIGroups rule) '';'';
          apiGroups = (if apiGroups = [] then quoted_empty else apiGroups);
          resources = Join (Resources rule) '';'';
          verbs = Join (Verbs rule) '';'';
          suggestion = ''//+kubebuilder:rbac:groups='' @ apiGroups @ '',resources='' @ resources
                         @ '',verbs='' @ verbs
      in if length (ResourceNames rule) > 0
         then suggestion @ '',resourceNames='' @ Join (ResourceNames rule) '';''
         else suggestion)"

fun SuggestKubebuilderAnnotation_loop :: "PolicyRule list \<Rightarrow> string list \<Rightarrow> string list" where
  "SuggestKubebuilderAnnotation_loop [] suggestions = suggestions"
| "SuggestKubebuilderAnnotation_loop (rule # missingRules) suggestions =
     SuggestKubebuilderAnnotation_loop missingRules (suggestions @ [suggestion rule])"

definition SuggestKubebuilderAnnotation :: "RBACValidator \<Rightarrow> PolicyRule list \<Rightarrow> string list" where
  "SuggestKubebuilderAnnotation v missingRules = SuggestKubebuilderAnnotation_loop missingRules []"

section \<open>Coverage of one rule\<close>

lemma found_iff: "found available req \<longleftrightarrow> ''*'' \<in> set available \<or> req \<in> set available"
  by (induction available) auto

lemma sliceContains_iff:
  "sliceContains available required \<longleftrightarrow>
     (\<forall>r \<in> set required. r \<in> set available) \<or> ''*'' \<in> set available"
  by (induction required) (auto simp: found_iff)

lemma ruleCovers_iff:
  "ruleCovers g r \<longleftrightarrow>
     sliceContains (APIGroups g) (APIGroups r) \<and>
     sliceContains (Resources g) (Resources r) \<and>
     sliceContains (Verbs g) (Verbs r) \<and>
     (ResourceNames r \<noteq> [] \<and> ResourceNames g \<noteq> [] \<longrightarrow>
        sliceContains (ResourceNames g) (ResourceNames r))"
  by (auto simp: ruleCovers_def)

lemma operatorCanGrant_loop_iff:
  "operatorCanGrant_loop G r \<longleftrightarrow> (\<exists>g \<in> set G. ruleCovers g r)"
  by (induction G) auto

lemma operatorCanGrant_iff:
  "operatorCanGrant v r \<longleftrightarrow> (\<exists>g \<in> set (operatorRules v). ruleCovers g r)"
  by (simp add: operatorCanGrant_def operatorCanGrant_loop_iff)

text \<open>
  Claim C1. The single-rule coverage test returns true iff some granted rule satisfies
  all four conditions at once: (1) every API group of the requested rule is among the
  granted rule's API groups, or these contain the wildcard; (2) the same for resources;
  (3) the same for verbs; (4) if both rules carry resource names, every requested name is
  among the granted names, or these contain the wildcard. When the requested rule carries
  names and the granted rule carries none, condition (4) holds.
\<close>

theorem operatorCanGrant_four_conditions:
  "operatorCanGrant v R \<longleftrightarrow>
     (\<exists>g \<in> set (operatorRules v).
        ((\<forall>x \<in> set (APIGroups R). x \<in> set (APIGroups g)) \<or> ''*'' \<in> set (APIGroups g)) \<and>
        ((\<forall>x \<in> set (Resources R). x \<in> set (Resources g)) \<or> ''*'' \<in> set (Resources g)) \<and>
        ((\<forall>x \<in> set (Verbs R). x \<in> set (Verbs g)) \<or> ''*'' \<in> set (Verbs g)) \<and>
        (if ResourceNames R \<noteq> [] \<and> ResourceNames g \<noteq> []
         then (\<forall>x \<in> set (ResourceNames R). x \<in> set (ResourceNames g))
                \<or> ''*'' \<in> set (ResourceNames g)
         else True))"
  unfolding operatorCanGrant_iff ruleCovers_iff sliceContains_iff by auto

theorem operatorCanGrant_four_conditions_witness:
  "operatorCanGrant
     (NewRBACValidator
        [\<lparr>APIGroups = [''''], Resources = [''configmaps''], Verbs = [''get''],
          ResourceNames = [''a'']\<rparr>,
         \<lparr>APIGroups = [''''], Resources = [''serviceaccounts/token''], Verbs = [''*''],
          ResourceNames = []\<rparr>])
     \<lparr>APIGroups = [''''], Resources = [''serviceaccounts/token''], Verbs = [''create''],
      ResourceNames = [''cert-manager'']\<rparr>"
  by (subst operatorCanGrant_four_conditions) (simp add: NewRBACValidator_def)


lemma sliceContains_refl: "sliceContains xs xs"
  by (simp add: sliceContains_iff)

lemma ruleCovers_needs_resource:
  "c \<in> set (Resources r) \<Longrightarrow> c \<notin> set (Resources g) \<Longrightarrow> ''*'' \<notin> set (Resources g)
     \<Longrightarrow> \<not> ruleCovers g r"
  by (auto simp: ruleCovers_iff sliceContains_iff)

lemma ruleCovers_trivial:
  "APIGroups r = [] \<Longrightarrow> Resources r = [] \<Longrightarrow> Verbs r = [] \<Longrightarrow> ResourceNames r = []
     \<Longrightarrow> ruleCovers g r"
  by (simp add: ruleCovers_iff)

lemma operatorCanGrant_trivial:
  "operatorRules v \<noteq> [] \<Longrightarrow> APIGroups r = [] \<Longrightarrow> Resources r = [] \<Longrightarrow> Verbs r = []
     \<Longrightarrow> ResourceNames r = [] \<Longrightarrow> operatorCanGrant v r"
  by (cases "operatorRules v") (simp_all add: operatorCanGrant_def ruleCovers_trivial)

lemma operatorCanGrant_no_rules: "operatorRules v = [] \<Longrightarrow> \<not> operatorCanGrant v r"
  by (simp add: operatorCanGrant_def)

lemmas eval_defs =
  NewRBACValidator_def operatorCanGrant_def ruleCovers_def ValidateRoleCreation_def
  formatPolicyRule_def fmt_v_def ValidateAllRoles_def GetMissingPermissions_def
  SuggestKubebuilderAnnotation_def suggestion_def quoted_empty_def Let_def

text \<open>
  The direction of the resource-name asymmetry that the code implements: for two rules
  with the same API groups, resources and verbs, a granted rule without resource names
  covers a requested rule with resource names.
\<close>

lemma unnamed_grant_covers_named_request:
  "APIGroups g = APIGroups r \<Longrightarrow> Resources g = Resources r \<Longrightarrow> Verbs g = Verbs r \<Longrightarrow>
   ResourceNames g = [] \<Longrightarrow> ResourceNames r \<noteq> [] \<Longrightarrow> ruleCovers g r"
  by (simp add: ruleCovers_iff sliceContains_refl)

text \<open>
  Claim C2. The resource-name asymmetry is to hold in both directions: a granted rule
  without resource names covers a requested rule with resource names, and a granted rule
  with resource names must not count as covering a requested rule without them when the
  other attributes are equal. The code breaks the second direction. The granted rule
  restricted to the name \<^verbatim>\<open>a\<close> is accepted as covering the request for every instance
  of the same group, resource and verb, and the coverage test against that single granted
  rule returns true, although the same granted rule is refused for the narrower request
  that names \<^verbatim>\<open>a\<close> and \<^verbatim>\<open>b\<close>.
\<close>

theorem named_grant_covers_unnamed_request:
  "ruleCovers
     \<lparr>APIGroups = [''''], Resources = [''secrets''], Verbs = [''get''], ResourceNames = [''a'']\<rparr>
     \<lparr>APIGroups = [''''], Resources = [''secrets''], Verbs = [''get''], ResourceNames = []\<rparr> \<and>
   operatorCanGrant
     (NewRBACValidator
        [\<lparr>APIGroups = [''''], Resources = [''secrets''], Verbs = [''get''],
          ResourceNames = [''a'']\<rparr>])
     \<lparr>APIGroups = [''''], Resources = [''secrets''], Verbs = [''get''], ResourceNames = []\<rparr> \<and>
   \<not> ruleCovers
       \<lparr>APIGroups = [''''], Resources = [''secrets''], Verbs = [''get''], ResourceNames = [''a'']\<rparr>
       \<lparr>APIGroups = [''''], Resources = [''secrets''], Verbs = [''get''],
        ResourceNames = [''a'', ''b'']\<rparr>"
  by (simp add: NewRBACValidator_def operatorCanGrant_def ruleCovers_def)

text \<open>
  Claim C3. Resource tokens are compared as whole strings. A granted rule whose resources
  contain a base token such as \<^verbatim>\<open>pods\<close>, but neither the compound token
  \<^verbatim>\<open>pods/exec\<close> nor the wildcard, does not cover a requested rule whose resources contain
  the compound token, whatever the verbs of the granted rule are.
\<close>

theorem no_subresource_inference:
  "base \<in> set (Resources g) \<Longrightarrow> base @ ''/'' @ sub \<notin> set (Resources g) \<Longrightarrow>
   ''*'' \<notin> set (Resources g) \<Longrightarrow> base @ ''/'' @ sub \<in> set (Resources r) \<Longrightarrow>
   \<not> ruleCovers g r"
  by (rule ruleCovers_needs_resource)

theorem no_subresource_inference_witness:
  "\<not> ruleCovers
       \<lparr>APIGroups = [''''], Resources = [''pods''], Verbs = [''*''], ResourceNames = []\<rparr>
       \<lparr>APIGroups = [''''], Resources = [''pods/exec''], Verbs = [''create''],
        ResourceNames = []\<rparr>"
  (is "\<not> ruleCovers ?g ?r")
  using no_subresource_inference [of "''pods''" ?g "''exec''" ?r]
  by simp

text \<open>
  Claim C4. The granted rule with the wildcard as its only API group, resource and verb,
  and no resource names, covers every requested rule; so the single-rule coverage test
  returns true for every requested rule as soon as that rule is in the granted set.
\<close>

theorem wildcard_rule_covers_everything:
  "ruleCovers
     \<lparr>APIGroups = [''*''], Resources = [''*''], Verbs = [''*''], ResourceNames = []\<rparr> R \<and>
   (\<lparr>APIGroups = [''*''], Resources = [''*''], Verbs = [''*''], ResourceNames = []\<rparr>
      \<in> set (operatorRules v) \<longrightarrow> operatorCanGrant v R)"
proof -
  let ?W = "\<lparr>APIGroups = [''*''], Resources = [''*''], Verbs = [''*''], ResourceNames = []\<rparr>"
  have covers: "ruleCovers ?W R"
    by (simp add: ruleCovers_iff sliceContains_iff)
  then have "?W \<in> set (operatorRules v) \<longrightarrow> operatorCanGrant v R"
    unfolding operatorCanGrant_iff by blast
  with covers show ?thesis by (rule conjI)
qed

theorem wildcard_rule_covers_everything_witness:
  "operatorCanGrant
     (NewRBACValidator
        [\<lparr>APIGroups = [''''], Resources = [''configmaps''], Verbs = [''get''],
          ResourceNames = []\<rparr>,
         \<lparr>APIGroups = [''*''], Resources = [''*''], Verbs = [''*''], ResourceNames = []\<rparr>])
     \<lparr>APIGroups = [''apps'', ''batch''], Resources = [''deployments/scale'', ''jobs''],
      Verbs = [''patch'', ''deletecollection''], ResourceNames = [''cert-manager'']\<rparr>"
  (is "operatorCanGrant ?v ?R")
  using wildcard_rule_covers_everything [of ?R ?v]
  by (simp add: NewRBACValidator_def)

section \<open>Validation of roles\<close>

lemma ValidateRoleCreation_loop_None_iff:
  "ValidateRoleCreation_loop v name rules = None \<longleftrightarrow>
     (\<forall>rule \<in> set rules. operatorCanGrant v rule)"
  by (induction rules) auto

lemma ValidateRoleCreation_None_iff:
  "ValidateRoleCreation v role = None \<longleftrightarrow> (\<forall>rule \<in> set (Rules role). operatorCanGrant v rule)"
  by (simp add: ValidateRoleCreation_def ValidateRoleCreation_loop_None_iff)

lemma ValidateRoleCreation_loop_first:
  "\<forall>p \<in> set pre. operatorCanGrant v p \<Longrightarrow> \<not> operatorCanGrant v rule \<Longrightarrow>
   ValidateRoleCreation_loop v name (pre @ rule # post) =
     Some (Errorf (''operator cannot create role '' @ name
                     @ '': missing permissions for '' @ formatPolicyRule rule))"
  by (induction pre) auto

lemma ValidateAllRoles_loop_eq:
  "ValidateAllRoles_loop v roles errors =
     errors @ map (\<lambda>role. the (ValidateRoleCreation v role))
                  (filter (\<lambda>role. ValidateRoleCreation v role \<noteq> None) roles)"
  by (induction roles arbitrary: errors) (auto split: option.splits)

lemma GetMissingPermissions_loop_eq:
  "GetMissingPermissions_loop v rules missing =
     missing @ filter (\<lambda>rule. \<not> operatorCanGrant v rule) rules"
  by (induction rules arbitrary: missing) auto


text \<open>
  Claim C6. Single-role validation returns no error iff every rule of the grant request
  passes the single-rule coverage test. Otherwise it returns one error, whose message
  names the grant request and renders the API groups, resources and verbs of the first
  uncovered rule in input order; rules after that one play no part in it.
\<close>

theorem ValidateRoleCreation_first_uncovered:
  "(ValidateRoleCreation v role = None \<longleftrightarrow>
      (\<forall>rule \<in> set (Rules role). operatorCanGrant v rule)) \<and>
   (\<not> (\<forall>rule \<in> set (Rules role). operatorCanGrant v rule) \<longrightarrow>
      (\<exists>pre rule post. Rules role = pre @ rule # post \<and>
         (\<forall>p \<in> set pre. operatorCanGrant v p) \<and> \<not> operatorCanGrant v rule)) \<and>
   (Rules role = pre @ rule # post \<and> (\<forall>p \<in> set pre. operatorCanGrant v p) \<and>
      \<not> operatorCanGrant v rule \<longrightarrow>
      ValidateRoleCreation v role =
        Some (Errorf (''operator cannot create role '' @ Name role
                        @ '': missing permissions for APIGroups:'' @ fmt_v (APIGroups rule)
                        @ '' Resources:'' @ fmt_v (Resources rule)
                        @ '' Verbs:'' @ fmt_v (Verbs rule))))"
proof (intro conjI impI)
  show "ValidateRoleCreation v role = None \<longleftrightarrow>
          (\<forall>rule \<in> set (Rules role). operatorCanGrant v rule)"
    by (rule ValidateRoleCreation_None_iff)
next
  assume "\<not> (\<forall>rule \<in> set (Rules role). operatorCanGrant v rule)"
  then have "\<exists>rule \<in> set (Rules role). \<not> operatorCanGrant v rule"
    by simp
  then obtain pre rule post where
    "Rules role = pre @ rule # post" "\<not> operatorCanGrant v rule"
    "\<forall>p \<in> set pre. \<not> \<not> operatorCanGrant v p"
    by (rule split_list_first_propE)
  then show "\<exists>pre rule post. Rules role = pre @ rule # post \<and>
               (\<forall>p \<in> set pre. operatorCanGrant v p) \<and> \<not> operatorCanGrant v rule"
    by auto
next
  assume "Rules role = pre @ rule # post \<and> (\<forall>p \<in> set pre. operatorCanGrant v p) \<and>
            \<not> operatorCanGrant v rule"
  then show "ValidateRoleCreation v role =
        Some (Errorf (''operator cannot create role '' @ Name role
                        @ '': missing permissions for APIGroups:'' @ fmt_v (APIGroups rule)
                        @ '' Resources:'' @ fmt_v (Resources rule)
                        @ '' Verbs:'' @ fmt_v (Verbs rule)))"
    by (simp add: ValidateRoleCreation_def ValidateRoleCreation_loop_first formatPolicyRule_def)
qed

theorem ValidateRoleCreation_first_uncovered_witness:
  "ValidateRoleCreation
     (NewRBACValidator
        [\<lparr>APIGroups = [''''], Resources = [''configmaps''], Verbs = [''get'', ''list''],
          ResourceNames = []\<rparr>])
     \<lparr>Name = ''tok'',
      Rules = [\<lparr>APIGroups = [''''], Resources = [''configmaps''], Verbs = [''get''],
                ResourceNames = []\<rparr>,
               \<lparr>APIGroups = [''''], Resources = [''secrets''], Verbs = [''get'', ''list''],
                ResourceNames = [''ca'']\<rparr>,
               \<lparr>APIGroups = [''apps''], Resources = [''pods''], Verbs = [''watch''],
                ResourceNames = []\<rparr>]\<rparr>
   = Some (Errorf ''operator cannot create role tok: missing permissions for APIGroups:[] Resources:[secrets] Verbs:[get list]'')"
  (is "ValidateRoleCreation ?v ?role = Some (Errorf ?msg)")
proof -
  let ?ok = "\<lparr>APIGroups = [''''], Resources = [''configmaps''], Verbs = [''get''],
              ResourceNames = []\<rparr>"
  let ?bad = "\<lparr>APIGroups = [''''], Resources = [''secrets''], Verbs = [''get'', ''list''],
               ResourceNames = [''ca'']\<rparr>"
  let ?later = "\<lparr>APIGroups = [''apps''], Resources = [''pods''], Verbs = [''watch''],
                 ResourceNames = []\<rparr>"
  have d: "Rules ?role = [?ok] @ ?bad # [?later]"
    by simp
  have p: "\<forall>p \<in> set [?ok]. operatorCanGrant ?v p"
    by (simp add: NewRBACValidator_def operatorCanGrant_def ruleCovers_def)
  have n: "\<not> operatorCanGrant ?v ?bad"
    by (simp add: NewRBACValidator_def operatorCanGrant_def ruleCovers_def)
  from d p n
    ValidateRoleCreation_first_uncovered
      [where v = ?v and role = ?role and pre = "[?ok]" and rule = ?bad and post = "[?later]"]
  have "ValidateRoleCreation ?v ?role =
        Some (Errorf (''operator cannot create role '' @ Name ?role
                        @ '': missing permissions for APIGroups:'' @ fmt_v (APIGroups ?bad)
                        @ '' Resources:'' @ fmt_v (Resources ?bad)
                        @ '' Verbs:'' @ fmt_v (Verbs ?bad)))"
    by blast
  then show ?thesis
    by (simp add: fmt_v_def)
qed

text \<open>
  Claim C5. Aggregate validation returns one error for each grant request that fails
  single-role validation, in the order of the input, and nothing for a grant request that
  passes. Over three requests of which the first and the third fail it returns exactly
  their two errors, the first before the third; over requests that all pass it returns
  the empty list.
\<close>

theorem ValidateAllRoles_errors_in_order:
  "ValidateAllRoles v roles =
     map (\<lambda>role. the (ValidateRoleCreation v role))
         (filter (\<lambda>role. ValidateRoleCreation v role \<noteq> None) roles) \<and>
   length (ValidateAllRoles v roles) =
     length (filter (\<lambda>role. ValidateRoleCreation v role \<noteq> None) roles) \<and>
   (ValidateRoleCreation v A = Some ea \<and> ValidateRoleCreation v B = None \<and>
      ValidateRoleCreation v C = Some ec \<longrightarrow> ValidateAllRoles v [A, B, C] = [ea, ec]) \<and>
   ((\<forall>role \<in> set roles. ValidateRoleCreation v role = None) \<longrightarrow> ValidateAllRoles v roles = [])"
proof -
  have eq: "ValidateAllRoles v rs =
          map (\<lambda>role. the (ValidateRoleCreation v role))
              (filter (\<lambda>role. ValidateRoleCreation v role \<noteq> None) rs)" for rs
    by (simp add: ValidateAllRoles_def ValidateAllRoles_loop_eq)
  have len: "length (ValidateAllRoles v roles) =
          length (filter (\<lambda>role. ValidateRoleCreation v role \<noteq> None) roles)"
    by (simp add: eq)
  have abc: "ValidateRoleCreation v A = Some ea \<and> ValidateRoleCreation v B = None \<and>
          ValidateRoleCreation v C = Some ec \<longrightarrow> ValidateAllRoles v [A, B, C] = [ea, ec]"
    by (simp add: eq)
  have none: "(\<forall>role \<in> set roles. ValidateRoleCreation v role = None) \<longrightarrow>
          ValidateAllRoles v roles = []"
    by (simp add: eq filter_empty_conv)
  from eq [of roles] len abc none show ?thesis
    by (intro conjI)
qed

theorem ValidateAllRoles_errors_in_order_witness:
  "ValidateAllRoles
     (NewRBACValidator
        [\<lparr>APIGroups = [''''], Resources = [''configmaps''], Verbs = [''get''],
          ResourceNames = []\<rparr>])
     [\<lparr>Name = ''a'', Rules = [\<lparr>APIGroups = [''''], Resources = [''secrets''],
                                Verbs = [''get''], ResourceNames = []\<rparr>]\<rparr>,
      \<lparr>Name = ''b'', Rules = [\<lparr>APIGroups = [''''], Resources = [''configmaps''],
                                Verbs = [''get''], ResourceNames = []\<rparr>]\<rparr>,
      \<lparr>Name = ''c'', Rules = [\<lparr>APIGroups = [''''], Resources = [''pods''],
                                Verbs = [''get''], ResourceNames = []\<rparr>]\<rparr>]
   = [Errorf ''operator cannot create role a: missing permissions for APIGroups:[] Resources:[secrets] Verbs:[get]'',
      Errorf ''operator cannot create role c: missing permissions for APIGroups:[] Resources:[pods] Verbs:[get]'']"
  (is "ValidateAllRoles ?v [?A, ?B, ?C] = [?ea, ?ec]")
proof -
  have a: "ValidateRoleCreation ?v ?A = Some ?ea"
    by (simp add: eval_defs)
  have b: "ValidateRoleCreation ?v ?B = None"
    by (simp add: eval_defs)
  have c: "ValidateRoleCreation ?v ?C = Some ?ec"
    by (simp add: eval_defs)
  from a b c
    ValidateAllRoles_errors_in_order
      [where v = ?v and roles = "[?A, ?B, ?C]" and A = ?A and B = ?B and C = ?C
         and ea = ?ea and ec = ?ec]
  show ?thesis
    by blast
qed

section \<open>Missing permissions and suggestions\<close>

text \<open>
  Claim C7. The missing permissions of a grant request are exactly the rules of the
  request for which the single-rule coverage test returns false: each rule as it stands,
  resource names included, in the order of the input, and nothing merged, so that an
  uncovered rule that occurs twice in the request occurs twice in the result.
\<close>

theorem GetMissingPermissions_is_filter:
  "GetMissingPermissions v role = filter (\<lambda>rule. \<not> operatorCanGrant v rule) (Rules role) \<and>
   (\<not> operatorCanGrant v rule \<longrightarrow>
      GetMissingPermissions v \<lparr>Name = name, Rules = [rule, rule]\<rparr> = [rule, rule])"
  by (simp add: GetMissingPermissions_def GetMissingPermissions_loop_eq)

theorem GetMissingPermissions_is_filter_witness:
  "GetMissingPermissions
     (NewRBACValidator
        [\<lparr>APIGroups = [''''], Resources = [''configmaps''], Verbs = [''get'', ''list''],
          ResourceNames = []\<rparr>])
     \<lparr>Name = ''test-role'',
      Rules = [\<lparr>APIGroups = [''''], Resources = [''serviceaccounts/token''],
                Verbs = [''create''], ResourceNames = [''cert-manager'']\<rparr>,
               \<lparr>APIGroups = [''''], Resources = [''configmaps''], Verbs = [''list''],
                ResourceNames = []\<rparr>,
               \<lparr>APIGroups = [''''], Resources = [''secrets''], Verbs = [''get''],
                ResourceNames = []\<rparr>,
               \<lparr>APIGroups = [''''], Resources = [''serviceaccounts/token''],
                Verbs = [''create''], ResourceNames = [''cert-manager'']\<rparr>]\<rparr>
   = [\<lparr>APIGroups = [''''], Resources = [''serviceaccounts/token''],
       Verbs = [''create''], ResourceNames = [''cert-manager'']\<rparr>,
      \<lparr>APIGroups = [''''], Resources = [''secrets''], Verbs = [''get''],
       ResourceNames = []\<rparr>,
      \<lparr>APIGroups = [''''], Resources = [''serviceaccounts/token''],
       Verbs = [''create''], ResourceNames = [''cert-manager'']\<rparr>]"
  (is "GetMissingPermissions ?v ?role = _")
  using GetMissingPermissions_is_filter
    [where v = ?v and role = ?role and name = "''test-role''"
       and rule = "\<lparr>APIGroups = [''''], Resources = [''secrets''], Verbs = [''get''],
                    ResourceNames = []\<rparr>"]
  by (simp add: NewRBACValidator_def operatorCanGrant_def ruleCovers_def)

lemma Join_empty_iff: "sep \<noteq> [] \<Longrightarrow> Join xs sep = [] \<longleftrightarrow> xs = [] \<or> xs = [[]]"
  by (induction xs sep rule: Join.induct) auto

lemma suggestion_eq:
  "suggestion rule =
     ''//+kubebuilder:rbac:groups=''
       @ (if APIGroups rule = [] \<or> APIGroups rule = [[]] then [CHR 0x22, CHR 0x22]
          else Join (APIGroups rule) '';'')
       @ '',resources='' @ Join (Resources rule) '';''
       @ '',verbs='' @ Join (Verbs rule) '';''
       @ (if ResourceNames rule = [] then []
          else '',resourceNames='' @ Join (ResourceNames rule) '';'')"
  by (simp add: suggestion_def quoted_empty_def Let_def Join_empty_iff)

lemma SuggestKubebuilderAnnotation_loop_eq:
  "SuggestKubebuilderAnnotation_loop rules suggestions = suggestions @ map suggestion rules"
  by (induction rules arbitrary: suggestions) auto

text \<open>
  Claim C8, as the code has it. Suggestion rendering produces one string per input rule,
  in input order: the prefix \<^verbatim>\<open>//+kubebuilder:rbac:\<close>, then
  \<^verbatim>\<open>groups=...,resources=...,verbs=...\<close> with the values of each attribute joined by
  \<^verbatim>\<open>;\<close> in their order, nothing sorted or dropped. When the joined API groups are the
  empty string, which is so for no API groups and for the single core group, the groups
  field is the token of two double quotes. The clause \<^verbatim>\<open>,resourceNames=...\<close> is appended
  iff the rule has resource names; its value is their join, which is empty exactly when
  the only resource name is the empty string.
\<close>

theorem SuggestKubebuilderAnnotation_renders:
  "SuggestKubebuilderAnnotation v rules =
     map (\<lambda>rule.
            ''//+kubebuilder:rbac:groups=''
              @ (if APIGroups rule = [] \<or> APIGroups rule = [[]] then [CHR 0x22, CHR 0x22]
                 else Join (APIGroups rule) '';'')
              @ '',resources='' @ Join (Resources rule) '';''
              @ '',verbs='' @ Join (Verbs rule) '';''
              @ (if ResourceNames rule = [] then []
                 else '',resourceNames='' @ Join (ResourceNames rule) '';'')) rules \<and>
   length (SuggestKubebuilderAnnotation v rules) = length rules \<and>
   (Join (APIGroups rule) '';'' = [] \<longleftrightarrow> APIGroups rule = [] \<or> APIGroups rule = [[]]) \<and>
   (ResourceNames rule \<noteq> [] \<longrightarrow>
      (Join (ResourceNames rule) '';'' = [] \<longleftrightarrow> ResourceNames rule = [[]]))"
proof -
  have "map suggestion rules =
     map (\<lambda>rule.
            ''//+kubebuilder:rbac:groups=''
              @ (if APIGroups rule = [] \<or> APIGroups rule = [[]] then [CHR 0x22, CHR 0x22]
                 else Join (APIGroups rule) '';'')
              @ '',resources='' @ Join (Resources rule) '';''
              @ '',verbs='' @ Join (Verbs rule) '';''
              @ (if ResourceNames rule = [] then []
                 else '',resourceNames='' @ Join (ResourceNames rule) '';'')) rules"
    by (rule map_cong [OF refl]) (rule suggestion_eq)
  then show ?thesis
    by (simp add: SuggestKubebuilderAnnotation_def SuggestKubebuilderAnnotation_loop_eq
        Join_empty_iff)
qed

theorem SuggestKubebuilderAnnotation_renders_witness:
  "SuggestKubebuilderAnnotation (NewRBACValidator [])
     [\<lparr>APIGroups = [''''], Resources = [''serviceaccounts/token''], Verbs = [''create''],
       ResourceNames = [''cert-manager'']\<rparr>,
      \<lparr>APIGroups = [''apps'', ''batch''], Resources = [''jobs'', ''deployments''],
       Verbs = [''list'', ''get'', ''list''], ResourceNames = []\<rparr>]
   = [''//+kubebuilder:rbac:groups='' @ [CHR 0x22, CHR 0x22]
        @ '',resources=serviceaccounts/token,verbs=create,resourceNames=cert-manager'',
      ''//+kubebuilder:rbac:groups=apps;batch,resources=jobs;deployments,verbs=list;get;list'']"
  (is "SuggestKubebuilderAnnotation ?v ?rules = _")
  using SuggestKubebuilderAnnotation_renders
    [where v = ?v and rules = ?rules
       and rule = "\<lparr>APIGroups = [''''], Resources = [''serviceaccounts/token''],
                    Verbs = [''create''], ResourceNames = [''cert-manager'']\<rparr>"]
  by simp

text \<open>
  The statement that the clause is never rendered with an empty value fails for a rule
  whose only resource name is the empty string: the rule has resource names, and the
  clause is rendered with nothing after the equals sign.
\<close>

theorem resourceNames_clause_with_empty_value:
  "ResourceNames \<lparr>APIGroups = [''''], Resources = [''secrets''], Verbs = [''get''],
                  ResourceNames = ['''']\<rparr> \<noteq> [] \<and>
   SuggestKubebuilderAnnotation (NewRBACValidator [])
     [\<lparr>APIGroups = [''''], Resources = [''secrets''], Verbs = [''get''],
       ResourceNames = ['''']\<rparr>]
   = [''//+kubebuilder:rbac:groups='' @ [CHR 0x22, CHR 0x22]
        @ '',resources=secrets,verbs=get,resourceNames='']"
  by (simp add: SuggestKubebuilderAnnotation_def suggestion_def quoted_empty_def Let_def)

section \<open>The empty granted set and trivial rules\<close>

text \<open>
  Claim C9. A validator can be built from an empty granted set. Against it the
  single-rule coverage test returns false for every requested rule, hence for every
  non-trivial one, and every grant request with at least one rule fails validation with
  an error value.
\<close>

theorem empty_granted_set_grants_nothing:
  "operatorRules (NewRBACValidator []) = [] \<and>
   \<not> operatorCanGrant (NewRBACValidator []) rule \<and>
   (Rules role \<noteq> [] \<longrightarrow> ValidateRoleCreation (NewRBACValidator []) role \<noteq> None)"
proof -
  have rules: "operatorRules (NewRBACValidator []) = []"
    by (simp add: NewRBACValidator_def)
  then have no: "\<not> operatorCanGrant (NewRBACValidator []) r" for r
    by (rule operatorCanGrant_no_rules)
  have "Rules role \<noteq> [] \<longrightarrow> ValidateRoleCreation (NewRBACValidator []) role \<noteq> None"
    by (simp add: ValidateRoleCreation_None_iff no)
  with rules no [of rule] show ?thesis
    by (intro conjI)
qed

theorem empty_granted_set_grants_nothing_witness:
  "ValidateRoleCreation (NewRBACValidator [])
     \<lparr>Name = ''cert-manager-tokenrequest'',
      Rules = [\<lparr>APIGroups = [''''], Resources = [''serviceaccounts/token''],
                Verbs = [''create''], ResourceNames = [''cert-manager'']\<rparr>]\<rparr> \<noteq> None"
  (is "ValidateRoleCreation _ ?role \<noteq> None")
  using empty_granted_set_grants_nothing
    [where role = ?role
       and rule = "\<lparr>APIGroups = [''''], Resources = [''serviceaccounts/token''],
                    Verbs = [''create''], ResourceNames = [''cert-manager'']\<rparr>"]
  by simp

text \<open>
  Claim C10, as the code has it. A requested rule whose API groups, resources, verbs and
  resource names are all empty is covered by every granted rule. So a grant request that
  consists only of such rules passes single-role validation whenever the granted set has
  at least one rule, and, when the request has at least one rule, fails whenever the
  granted set is empty.
\<close>

theorem all_empty_rule_covered_by_any_rule:
  "(APIGroups r = [] \<and> Resources r = [] \<and> Verbs r = [] \<and> ResourceNames r = []
      \<longrightarrow> ruleCovers g r) \<and>
   ((\<forall>x \<in> set (Rules role).
        APIGroups x = [] \<and> Resources x = [] \<and> Verbs x = [] \<and> ResourceNames x = []) \<and>
      operatorRules v \<noteq> [] \<longrightarrow> ValidateRoleCreation v role = None) \<and>
   ((\<forall>x \<in> set (Rules role).
        APIGroups x = [] \<and> Resources x = [] \<and> Verbs x = [] \<and> ResourceNames x = []) \<and>
      Rules role \<noteq> [] \<and> operatorRules v = [] \<longrightarrow> ValidateRoleCreation v role \<noteq> None)"
proof (intro conjI impI)
  assume "APIGroups r = [] \<and> Resources r = [] \<and> Verbs r = [] \<and> ResourceNames r = []"
  then show "ruleCovers g r"
    by (simp add: ruleCovers_trivial)
next
  assume "(\<forall>x \<in> set (Rules role).
        APIGroups x = [] \<and> Resources x = [] \<and> Verbs x = [] \<and> ResourceNames x = []) \<and>
      operatorRules v \<noteq> []"
  then show "ValidateRoleCreation v role = None"
    by (simp add: ValidateRoleCreation_None_iff operatorCanGrant_trivial)
next
  assume "(\<forall>x \<in> set (Rules role).
        APIGroups x = [] \<and> Resources x = [] \<and> Verbs x = [] \<and> ResourceNames x = []) \<and>
      Rules role \<noteq> [] \<and> operatorRules v = []"
  then show "ValidateRoleCreation v role \<noteq> None"
    by (simp add: ValidateRoleCreation_None_iff operatorCanGrant_no_rules)
qed

theorem all_empty_rule_covered_by_any_rule_witness:
  "ValidateRoleCreation
     (NewRBACValidator
        [\<lparr>APIGroups = [''apps''], Resources = [''deployments''], Verbs = [''get''],
          ResourceNames = [''cert-manager'']\<rparr>])
     \<lparr>Name = ''empty'',
      Rules = [\<lparr>APIGroups = [], Resources = [], Verbs = [], ResourceNames = []\<rparr>]\<rparr> = None \<and>
   ValidateRoleCreation (NewRBACValidator [])
     \<lparr>Name = ''empty'',
      Rules = [\<lparr>APIGroups = [], Resources = [], Verbs = [], ResourceNames = []\<rparr>]\<rparr> \<noteq> None"
  (is "ValidateRoleCreation ?v1 ?role = None \<and> ValidateRoleCreation ?v2 ?role \<noteq> None")
  using
    all_empty_rule_covered_by_any_rule
      [where v = ?v1 and role = ?role
         and r = "\<lparr>APIGroups = [], Resources = [], Verbs = [], ResourceNames = []\<rparr>"
         and g = "\<lparr>APIGroups = [''apps''], Resources = [''deployments''], Verbs = [''get''],
                   ResourceNames = [''cert-manager'']\<rparr>"]
    all_empty_rule_covered_by_any_rule
      [where v = ?v2 and role = ?role
         and r = "\<lparr>APIGroups = [], Resources = [], Verbs = [], ResourceNames = []\<rparr>"
         and g = "\<lparr>APIGroups = [''apps''], Resources = [''deployments''], Verbs = [''get''],
                   ResourceNames = [''cert-manager'']\<rparr>"]
  by (simp add: NewRBACValidator_def)

text \<open>
  Without the condition on the resource names the statement fails: a requested rule with
  no API groups, resources or verbs that names the instance \<^verbatim>\<open>a\<close> is not covered by the
  granted rule that is a wildcard in every attribute but restricted to the name \<^verbatim>\<open>b\<close>.
\<close>

theorem trivial_rule_with_names_not_covered:
  "\<not> ruleCovers
       \<lparr>APIGroups = [''*''], Resources = [''*''], Verbs = [''*''], ResourceNames = [''b'']\<rparr>
       \<lparr>APIGroups = [], Resources = [], Verbs = [], ResourceNames = [''a'']\<rparr>"
  by (simp add: ruleCovers_def)

end
